theory Spec2Isabelle
  imports Main
begin

section \<open>Project context lifecycle controls (ChatControls.tsx)\<close>

text \<open>
  The two operations of the chat control bar that act on the current project,
  \<^verbatim>\<open>reloadCurrentProject\<close> and \<^verbatim>\<open>forceRebuildCurrentProjectContext\<close>, are embedded
  as functions on an explicit world: the process-wide loading flag, the state of the
  project context cache, and the trace of every effect the code performs on a
  collaborator, in program order. Each awaited call either completes or rejects with
  an error value, and may change the cache in both cases.
\<close>

subsection \<open>Data\<close>

text \<open>
  The only fields of a project the code reads: \<^verbatim>\<open>currentProject.id\<close> and
  \<^verbatim>\<open>currentProject.name\<close>.
\<close>

record project =
  id' :: string
  name :: string

text \<open>
  A value caught by \<^verbatim>\<open>catch (error)\<close>: \<open>Error msg\<close> is \<^verbatim>\<open>new Error(msg)\<close>,
  \<open>Thrown x\<close> is any other value a collaborator rejects with.
\<close>

datatype 'x error = Error string | Thrown 'x

text \<open>One constructor for every call the two operations make on a collaborator.\<close>

datatype 'x event =
    SetProjectLoading bool
  | Notice string "nat option"
  | LogError string "'x error"
  | InvalidateMarkdownContext project bool
  | ClearForProject project
  | ResetRateLimitNoticeTimer
  | GetPlugin string
  | GetProjectContext string
  | NewConfirmModal string string
  | ModalOpen

record ('c, 'x) world =
  projectLoading :: bool
  cache :: 'c
  trace :: "'x event list"

text \<open>
  An asynchronous function of the source: it runs on a world and either completes
  (\<open>None\<close>) or throws (\<open>Some e\<close>), leaving a world behind in both cases.
\<close>

type_synonym ('c, 'x) action = "('c, 'x) world \<Rightarrow> 'x error option \<times> ('c, 'x) world"

text \<open>
  An awaited call on the cache or on the project manager, as a function of the cache
  state: the outcome of the promise and the cache state it leaves.
\<close>

type_synonym ('c, 'x) cacheCall = "'c \<Rightarrow> 'x error option \<times> 'c"

record ('c, 'x) ProjectManager =
  getProjectContext :: "string \<Rightarrow> ('c, 'x) cacheCall"

record ('c, 'x) Plugin =
  projectManager :: "('c, 'x) ProjectManager option"

text \<open>
  The collaborators the module imports, none of which is defined in this file:
  \<^verbatim>\<open>getCurrentProject\<close> (aiParams), \<^verbatim>\<open>ProjectContextCache.getInstance()\<close>,
  \<^verbatim>\<open>app.plugins.getPlugin\<close> and \<^verbatim>\<open>isRateLimitError\<close> (utils/rateLimitUtils).
\<close>

record ('c, 'x) env =
  getCurrentProject :: "project option"
  invalidateMarkdownContext :: "project \<Rightarrow> bool \<Rightarrow> ('c, 'x) cacheCall"
  clearForProject :: "project \<Rightarrow> ('c, 'x) cacheCall"
  getPlugin :: "string \<Rightarrow> ('c, 'x) Plugin option"
  isRateLimitError :: "'x error \<Rightarrow> bool"

subsection \<open>Control flow\<close>

definition emit :: "'x event \<Rightarrow> ('c, 'x) action" where
  "emit ev w = (None, w\<lparr>trace := trace w @ [ev]\<rparr>)"

definition throw :: "'x error \<Rightarrow> ('c, 'x) action" where
  "throw e w = (Some e, w)"

text \<open>Statement sequencing: a throw skips the rest of the block.\<close>

definition andThen :: "('c, 'x) action \<Rightarrow> ('c, 'x) action \<Rightarrow> ('c, 'x) action" where
  "andThen a b w = (case a w of (None, w1) \<Rightarrow> b w1 | (Some e, w1) \<Rightarrow> (Some e, w1))"

text \<open>
  \<^verbatim>\<open>try { body } catch (error) { handler } finally { fin }\<close>: the handler runs on
  what the body throws, \<open>fin\<close> runs on every path, and what the handler or \<open>fin\<close>
  throw leaves the statement.
\<close>

definition tryCatchFinally ::
  "('c, 'x) action \<Rightarrow> ('x error \<Rightarrow> ('c, 'x) action) \<Rightarrow> ('c, 'x) action \<Rightarrow> ('c, 'x) action" where
  "tryCatchFinally body handler fin w =
     (case body w of
        (None, w1) \<Rightarrow> fin w1
      | (Some e, w1) \<Rightarrow>
          (case handler e w1 of
             (r, w2) \<Rightarrow>
               (case fin w2 of
                  (None, w3) \<Rightarrow> (r, w3)
                | (Some e', w3) \<Rightarrow> (Some e', w3))))"

text \<open>\<^verbatim>\<open>await call\<close>: the call is recorded, then its outcome and its cache state taken.\<close>

definition await :: "'x event \<Rightarrow> ('c, 'x) cacheCall \<Rightarrow> ('c, 'x) action" where
  "await ev call w =
     (case call (cache w) of
        (r, c) \<Rightarrow> (r, w\<lparr>cache := c, trace := trace w @ [ev]\<rparr>))"

subsection \<open>Collaborators with a fixed behaviour\<close>

text \<open>
  Modelled from the spec: \<^verbatim>\<open>setProjectLoading\<close> of aiParams, the setter of the
  process-wide busy flag of the CurrentProjectRegister.
\<close>

definition setProjectLoading :: "bool \<Rightarrow> ('c, 'x) action" where
  "setProjectLoading b w =
     (None, w\<lparr>projectLoading := b, trace := trace w @ [SetProjectLoading b]\<rparr>)"

text \<open>\<^verbatim>\<open>new Notice(message)\<close> and \<^verbatim>\<open>new Notice(message, duration)\<close>.\<close>

definition notice :: "string \<Rightarrow> ('c, 'x) action" where
  "notice message = emit (Notice message None)"

definition noticeFor :: "string \<Rightarrow> nat \<Rightarrow> ('c, 'x) action" where
  "noticeFor message duration = emit (Notice message (Some duration))"

definition logError :: "string \<Rightarrow> 'x error \<Rightarrow> ('c, 'x) action" where
  "logError message e = emit (LogError message e)"

definition resetRateLimitNoticeTimer :: "('c, 'x) action" where
  "resetRateLimitNoticeTimer = emit ResetRateLimitNoticeTimer"

text \<open>
  Modelled from the spec: \<^verbatim>\<open>ConfirmModal\<close> of components/modals, the
  ConfirmationPrompt, which "presents a modal with a message and title; invokes a
  supplied action only if the user confirms". \<open>userConfirms\<close> is the user's answer;
  \<open>False\<close> stands for cancelling, dismissing and never answering. The callback runs
  when the answer arrives, which is after \<^verbatim>\<open>modal.open()\<close> has returned; the model
  places its run right after the opening.
\<close>

record ('c, 'x) ConfirmModal =
  onConfirm :: "('c, 'x) action"
  content :: string
  title :: string

definition openModal :: "bool \<Rightarrow> ('c, 'x) ConfirmModal \<Rightarrow> ('c, 'x) action" where
  "openModal userConfirms modal =
     andThen (emit ModalOpen)
       (if userConfirms then onConfirm modal else Pair None)"

subsection \<open>reloadCurrentProject\<close>

definition unavailable :: string where
  "unavailable = ''Copilot plugin or ProjectManager not available.''"

definition reloadFailed :: string where
  "reloadFailed = ''Failed to reload project context. Check console for details.''"

definition reloaded :: "project \<Rightarrow> string" where
  "reloaded currentProject =
     ''Project context for '' @ [CHR 0x22] @ name currentProject @ [CHR 0x22]
     @ '' reloaded successfully.''"

definition reloadTry :: "('c, 'x) env \<Rightarrow> project \<Rightarrow> ('c, 'x) action" where
  "reloadTry env currentProject =
     andThen (setProjectLoading True)
    (andThen (await (InvalidateMarkdownContext currentProject True)
                (invalidateMarkdownContext env currentProject True))
    (andThen (emit (GetPlugin ''copilot''))
      (case getPlugin env ''copilot'' of
         Some plugin \<Rightarrow>
           (case projectManager plugin of
              Some pm \<Rightarrow>
                andThen (await (GetProjectContext (id' currentProject))
                           (getProjectContext pm (id' currentProject)))
                  (notice (reloaded currentProject))
            | None \<Rightarrow> throw (Error unavailable))
       | None \<Rightarrow> throw (Error unavailable))))"

definition reloadCatch :: "('c, 'x) env \<Rightarrow> 'x error \<Rightarrow> ('c, 'x) action" where
  "reloadCatch env e =
     andThen (logError ''Error reloading project context:'' e)
       (if \<not> isRateLimitError env e then notice reloadFailed else Pair None)"

definition reloadCurrentProject :: "('c, 'x) env \<Rightarrow> ('c, 'x) action" where
  "reloadCurrentProject env =
     (case getCurrentProject env of
        None \<Rightarrow> notice ''No project is currently selected to reload.''
      | Some currentProject \<Rightarrow>
          tryCatchFinally (reloadTry env currentProject) (reloadCatch env)
            (setProjectLoading False))"

subsection \<open>forceRebuildCurrentProjectContext\<close>

definition unavailableForRebuild :: string where
  "unavailableForRebuild = ''Copilot plugin or ProjectManager not available for rebuild.''"

definition rebuildFailed :: string where
  "rebuildFailed = ''Failed to force rebuild project context. Check console for details.''"

definition rebuilding :: "project \<Rightarrow> string" where
  "rebuilding currentProject =
     ''Force rebuilding context for project: '' @ name currentProject
     @ ''... This will take some time and re-fetch all data.''"

definition cacheCleared :: "project \<Rightarrow> string" where
  "cacheCleared currentProject =
     ''Cache for project '' @ [CHR 0x22] @ name currentProject @ [CHR 0x22]
     @ '' has been cleared.''"

definition rebuilt :: "project \<Rightarrow> string" where
  "rebuilt currentProject =
     ''Project context for '' @ [CHR 0x22] @ name currentProject @ [CHR 0x22]
     @ '' rebuilt successfully from scratch.''"

definition forceRebuildTry :: "('c, 'x) env \<Rightarrow> project \<Rightarrow> ('c, 'x) action" where
  "forceRebuildTry env currentProject =
     andThen (setProjectLoading True)
    (andThen (noticeFor (rebuilding currentProject) 10000)
    (andThen resetRateLimitNoticeTimer
    (andThen (await (ClearForProject currentProject) (clearForProject env currentProject))
    (andThen (notice (cacheCleared currentProject))
    (andThen (emit (GetPlugin ''copilot''))
      (case getPlugin env ''copilot'' of
         Some plugin \<Rightarrow>
           (case projectManager plugin of
              Some pm \<Rightarrow>
                andThen (await (GetProjectContext (id' currentProject))
                           (getProjectContext pm (id' currentProject)))
                  (notice (rebuilt currentProject))
            | None \<Rightarrow> throw (Error unavailableForRebuild))
       | None \<Rightarrow> throw (Error unavailableForRebuild)))))))"

definition forceRebuildCatch :: "('c, 'x) env \<Rightarrow> 'x error \<Rightarrow> ('c, 'x) action" where
  "forceRebuildCatch env e =
     andThen (logError ''Error force rebuilding project context:'' e)
       (if \<not> isRateLimitError env e then notice rebuildFailed else Pair None)"

text \<open>The callback handed to the modal: lines 85 to 125 of the source.\<close>

definition forceRebuildConfirmed :: "('c, 'x) env \<Rightarrow> project \<Rightarrow> ('c, 'x) action" where
  "forceRebuildConfirmed env currentProject =
     tryCatchFinally (forceRebuildTry env currentProject) (forceRebuildCatch env)
       (setProjectLoading False)"

definition danger :: "project \<Rightarrow> string" where
  "danger currentProject =
     ''DANGER: This will permanently delete all cached data (markdown, web URLs, YouTube transcripts, and processed file content) for the project ''
     @ [CHR 0x22] @ name currentProject @ [CHR 0x22]
     @ '' from both memory and disk. The context will then be rebuilt from scratch, re-fetching all remote data and re-processing all local files. This cannot be undone. Are you absolutely sure?''"

definition forceRebuildCurrentProjectContext ::
  "('c, 'x) env \<Rightarrow> bool \<Rightarrow> ('c, 'x) action" where
  "forceRebuildCurrentProjectContext env userConfirms =
     (case getCurrentProject env of
        None \<Rightarrow> notice ''No project is currently selected to rebuild.''
      | Some currentProject \<Rightarrow>
          (let modal = \<lparr>onConfirm = forceRebuildConfirmed env currentProject,
                        content = danger currentProject,
                        title = ''Force Rebuild Project Context''\<rparr>
           in andThen (emit (NewConfirmModal (content modal) (title modal)))
                (openModal userConfirms modal)))"

subsection \<open>Observing a run\<close>

text \<open>The events an action appends to the trace of the world it runs on.\<close>

definition effects :: "('c, 'x) action \<Rightarrow> ('c, 'x) world \<Rightarrow> 'x event list" where
  "effects a w = drop (length (trace w)) (trace (snd (a w)))"

fun isSetProjectLoading :: "'x event \<Rightarrow> bool" where
  "isSetProjectLoading (SetProjectLoading b) = True"
| "isSetProjectLoading _ = False"

fun isNotice :: "'x event \<Rightarrow> bool" where
  "isNotice (Notice message duration) = True"
| "isNotice _ = False"

fun isLogError :: "'x event \<Rightarrow> bool" where
  "isLogError (LogError message e) = True"
| "isLogError _ = False"

text \<open>
  The calls on the cache (\<^verbatim>\<open>invalidateMarkdownContext\<close>, \<^verbatim>\<open>clearForProject\<close>) and
  the recompute call (\<^verbatim>\<open>getProjectContext\<close>).
\<close>

fun isCacheCall :: "'x event \<Rightarrow> bool" where
  "isCacheCall (InvalidateMarkdownContext p force) = True"
| "isCacheCall (ClearForProject p) = True"
| "isCacheCall (GetProjectContext i) = True"
| "isCacheCall _ = False"

text \<open>
  The steps of a force rebuild that start the operation: raising the loading flag,
  resetting the rate-limit notice timer, clearing the cache, recomputing.
\<close>

fun isRebuildStep :: "'x event \<Rightarrow> bool" where
  "isRebuildStep (SetProjectLoading b) = True"
| "isRebuildStep ResetRateLimitNoticeTimer = True"
| "isRebuildStep (ClearForProject p) = True"
| "isRebuildStep (GetProjectContext i) = True"
| "isRebuildStep _ = False"

subsection \<open>A concrete installation\<close>

text \<open>
  A cache that lists the kinds of content it holds for the project, and collaborators
  that rewrite it; the rejection value \<open>Thrown 429\<close> is the one the classifier takes
  for a rate limit.
\<close>

definition research :: project where
  "research = \<lparr>id' = ''p1'', name = ''Research''\<rparr>"

definition idle :: "(string list, nat) world" where
  "idle = \<lparr>projectLoading = False, cache = [''markdown'', ''web'', ''pdf''], trace = []\<rparr>"

definition manager :: "(string list, nat) ProjectManager" where
  "manager = \<lparr>getProjectContext = (\<lambda>i c. (None, [''markdown'', ''web'', ''pdf'']))\<rparr>"

definition healthy :: "(string list, nat) env" where
  "healthy =
     \<lparr>getCurrentProject = Some research,
      invalidateMarkdownContext = (\<lambda>p force c. (None, if force then [''pdf''] else remove1 ''markdown'' c)),
      clearForProject = (\<lambda>p c. (None, [])),
      getPlugin = (\<lambda>n. if n = ''copilot'' then Some \<lparr>projectManager = Some manager\<rparr> else None),
      isRateLimitError = (\<lambda>e. e = Thrown 429)\<rparr>"

definition rejecting :: "nat error \<Rightarrow> (string list, nat) env" where
  "rejecting e =
     healthy\<lparr>getPlugin := (\<lambda>n. Some \<lparr>projectManager =
        Some \<lparr>getProjectContext = (\<lambda>i c. (Some e, c @ [''partial'']))\<rparr>\<rparr>)\<rparr>"

definition unplugged :: "(string list, nat) env" where
  "unplugged = healthy\<lparr>getPlugin := (\<lambda>n. None)\<rparr>"

definition unselected :: "(string list, nat) env" where
  "unselected = healthy\<lparr>getCurrentProject := None\<rparr>"


section \<open>Runs\<close>

subsection \<open>Stepping through a block\<close>

lemma andThen_emit: "andThen (emit ev) k w = k (w\<lparr>trace := trace w @ [ev]\<rparr>)"
  by (simp add: andThen_def emit_def)

lemma andThen_setProjectLoading:
  "andThen (setProjectLoading b) k w =
     k (w\<lparr>projectLoading := b, trace := trace w @ [SetProjectLoading b]\<rparr>)"
  by (simp add: andThen_def setProjectLoading_def)

lemma andThen_await:
  "andThen (await ev call) k w =
     (case call (cache w) of
        (None, c) \<Rightarrow> k (w\<lparr>cache := c, trace := trace w @ [ev]\<rparr>)
      | (Some e, c) \<Rightarrow> (Some e, w\<lparr>cache := c, trace := trace w @ [ev]\<rparr>))"
  by (simp add: andThen_def await_def split: prod.splits option.splits)

lemmas steps = andThen_emit andThen_setProjectLoading andThen_await
  notice_def noticeFor_def logError_def resetRateLimitNoticeTimer_def throw_def
  tryCatchFinally_def setProjectLoading_def emit_def

lemma cleared_not_failed: "cacheCleared p \<noteq> rebuildFailed"
  by (simp add: cacheCleared_def rebuildFailed_def)

subsection \<open>The four runs of a reload\<close>

lemma reload_after_throw:
  assumes "getCurrentProject env = Some p" and "reloadTry env p w = (Some e, w1)"
  shows "reloadCurrentProject env w =
    (None, w1\<lparr>projectLoading := False,
       trace := trace w1 @ LogError ''Error reloading project context:'' e
                # (if isRateLimitError env e then [] else [Notice reloadFailed None])
                @ [SetProjectLoading False]\<rparr>)"
  using assms by (simp add: reloadCurrentProject_def reloadCatch_def steps)

lemma reload_after_success:
  assumes "getCurrentProject env = Some p" and "reloadTry env p w = (None, w1)"
  shows "reloadCurrentProject env w =
    (None, w1\<lparr>projectLoading := False, trace := trace w1 @ [SetProjectLoading False]\<rparr>)"
  using assms by (simp add: reloadCurrentProject_def steps)

lemma reload_run:
  assumes sel: "getCurrentProject env = Some p"
  obtains
    (InvalidateRejects) e c1 where
      "invalidateMarkdownContext env p True (cache w) = (Some e, c1)"
      "reloadTry env p w =
         (Some e, \<lparr>projectLoading = True, cache = c1,
            trace = trace w @ [SetProjectLoading True, InvalidateMarkdownContext p True]\<rparr>)"
      "reloadCurrentProject env w =
         (None, \<lparr>projectLoading = False, cache = c1,
            trace = trace w @ [SetProjectLoading True, InvalidateMarkdownContext p True,
                                LogError ''Error reloading project context:'' e]
                     @ (if isRateLimitError env e then [] else [Notice reloadFailed None])
                     @ [SetProjectLoading False]\<rparr>)"
  | (Unavailable) c1 where
      "invalidateMarkdownContext env p True (cache w) = (None, c1)"
      "case getPlugin env ''copilot'' of None \<Rightarrow> True
       | Some plugin \<Rightarrow> projectManager plugin = None"
      "reloadTry env p w =
         (Some (Error unavailable), \<lparr>projectLoading = True, cache = c1,
            trace = trace w @ [SetProjectLoading True, InvalidateMarkdownContext p True,
                                GetPlugin ''copilot'']\<rparr>)"
      "reloadCurrentProject env w =
         (None, \<lparr>projectLoading = False, cache = c1,
            trace = trace w @ [SetProjectLoading True, InvalidateMarkdownContext p True,
                                GetPlugin ''copilot'',
                                LogError ''Error reloading project context:'' (Error unavailable)]
                     @ (if isRateLimitError env (Error unavailable) then []
                        else [Notice reloadFailed None])
                     @ [SetProjectLoading False]\<rparr>)"
  | (RecomputeRejects) c1 plugin pm e c2 where
      "invalidateMarkdownContext env p True (cache w) = (None, c1)"
      "getPlugin env ''copilot'' = Some plugin" "projectManager plugin = Some pm"
      "getProjectContext pm (id' p) c1 = (Some e, c2)"
      "reloadTry env p w =
         (Some e, \<lparr>projectLoading = True, cache = c2,
            trace = trace w @ [SetProjectLoading True, InvalidateMarkdownContext p True,
                                GetPlugin ''copilot'', GetProjectContext (id' p)]\<rparr>)"
      "reloadCurrentProject env w =
         (None, \<lparr>projectLoading = False, cache = c2,
            trace = trace w @ [SetProjectLoading True, InvalidateMarkdownContext p True,
                                GetPlugin ''copilot'', GetProjectContext (id' p),
                                LogError ''Error reloading project context:'' e]
                     @ (if isRateLimitError env e then [] else [Notice reloadFailed None])
                     @ [SetProjectLoading False]\<rparr>)"
  | (Succeeds) c1 plugin pm c2 where
      "invalidateMarkdownContext env p True (cache w) = (None, c1)"
      "getPlugin env ''copilot'' = Some plugin" "projectManager plugin = Some pm"
      "getProjectContext pm (id' p) c1 = (None, c2)"
      "reloadTry env p w =
         (None, \<lparr>projectLoading = True, cache = c2,
            trace = trace w @ [SetProjectLoading True, InvalidateMarkdownContext p True,
                                GetPlugin ''copilot'', GetProjectContext (id' p),
                                Notice (reloaded p) None]\<rparr>)"
      "reloadCurrentProject env w =
         (None, \<lparr>projectLoading = False, cache = c2,
            trace = trace w @ [SetProjectLoading True, InvalidateMarkdownContext p True,
                                GetPlugin ''copilot'', GetProjectContext (id' p),
                                Notice (reloaded p) None, SetProjectLoading False]\<rparr>)"
proof -
  obtain r1 c1 where inv: "invalidateMarkdownContext env p True (cache w) = (r1, c1)"
    by (cases "invalidateMarkdownContext env p True (cache w)")
  show thesis
  proof (cases r1)
    case (Some e)
    with inv have t: "reloadTry env p w =
         (Some e, \<lparr>projectLoading = True, cache = c1,
            trace = trace w @ [SetProjectLoading True, InvalidateMarkdownContext p True]\<rparr>)"
      by (simp add: reloadTry_def steps)
    show thesis
      using inv Some t reload_after_throw [OF sel t] by (intro InvalidateRejects) simp_all
  next
    case None
    note ok = inv [unfolded None]
    show thesis
    proof (cases "case getPlugin env ''copilot'' of None \<Rightarrow> True
                  | Some plugin \<Rightarrow> projectManager plugin = None")
      case True
      with ok have t: "reloadTry env p w =
         (Some (Error unavailable), \<lparr>projectLoading = True, cache = c1,
            trace = trace w @ [SetProjectLoading True, InvalidateMarkdownContext p True,
                                GetPlugin ''copilot'']\<rparr>)"
        by (simp add: reloadTry_def steps split: option.splits)
      show thesis
        using ok True t reload_after_throw [OF sel t] by (intro Unavailable) simp_all
    next
      case False
      then obtain plugin pm where
        pl: "getPlugin env ''copilot'' = Some plugin" and pm: "projectManager plugin = Some pm"
        by (auto split: option.splits)
      obtain r2 c2 where gpc: "getProjectContext pm (id' p) c1 = (r2, c2)"
        by (cases "getProjectContext pm (id' p) c1")
      show thesis
      proof (cases r2)
        case (Some e)
        with ok pl pm gpc have t: "reloadTry env p w =
         (Some e, \<lparr>projectLoading = True, cache = c2,
            trace = trace w @ [SetProjectLoading True, InvalidateMarkdownContext p True,
                                GetPlugin ''copilot'', GetProjectContext (id' p)]\<rparr>)"
          by (simp add: reloadTry_def steps)
        show thesis
          using ok pl pm gpc Some t reload_after_throw [OF sel t]
          by (intro RecomputeRejects) simp_all
      next
        case None
        with ok pl pm gpc have t: "reloadTry env p w =
         (None, \<lparr>projectLoading = True, cache = c2,
            trace = trace w @ [SetProjectLoading True, InvalidateMarkdownContext p True,
                                GetPlugin ''copilot'', GetProjectContext (id' p),
                                Notice (reloaded p) None]\<rparr>)"
          by (simp add: reloadTry_def steps)
        show thesis
          using ok pl pm gpc None t reload_after_success [OF sel t]
          by (intro Succeeds) simp_all
      qed
    qed
  qed
qed

subsection \<open>The four runs of a confirmed force rebuild\<close>

lemma rebuild_after_throw:
  assumes "forceRebuildTry env p w = (Some e, w1)"
  shows "forceRebuildConfirmed env p w =
    (None, w1\<lparr>projectLoading := False,
       trace := trace w1 @ LogError ''Error force rebuilding project context:'' e
                # (if isRateLimitError env e then [] else [Notice rebuildFailed None])
                @ [SetProjectLoading False]\<rparr>)"
  using assms by (simp add: forceRebuildConfirmed_def forceRebuildCatch_def steps)

lemma rebuild_after_success:
  assumes "forceRebuildTry env p w = (None, w1)"
  shows "forceRebuildConfirmed env p w =
    (None, w1\<lparr>projectLoading := False, trace := trace w1 @ [SetProjectLoading False]\<rparr>)"
  using assms by (simp add: forceRebuildConfirmed_def steps)

lemma rebuild_run:
  obtains
    (ClearRejects) e c1 where
      "clearForProject env p (cache w) = (Some e, c1)"
      "forceRebuildTry env p w =
         (Some e, \<lparr>projectLoading = True, cache = c1,
            trace = trace w @ [SetProjectLoading True, Notice (rebuilding p) (Some 10000),
                               ResetRateLimitNoticeTimer, ClearForProject p]\<rparr>)"
      "forceRebuildConfirmed env p w =
         (None, \<lparr>projectLoading = False, cache = c1,
            trace = trace w @ [SetProjectLoading True, Notice (rebuilding p) (Some 10000),
                               ResetRateLimitNoticeTimer, ClearForProject p,
                               LogError ''Error force rebuilding project context:'' e]
                    @ (if isRateLimitError env e then [] else [Notice rebuildFailed None])
                    @ [SetProjectLoading False]\<rparr>)"
  | (Unavailable) c1 where
      "clearForProject env p (cache w) = (None, c1)"
      "case getPlugin env ''copilot'' of None \<Rightarrow> True
       | Some plugin \<Rightarrow> projectManager plugin = None"
      "forceRebuildTry env p w =
         (Some (Error unavailableForRebuild), \<lparr>projectLoading = True, cache = c1,
            trace = trace w @ [SetProjectLoading True, Notice (rebuilding p) (Some 10000),
                               ResetRateLimitNoticeTimer, ClearForProject p,
                               Notice (cacheCleared p) None, GetPlugin ''copilot'']\<rparr>)"
      "forceRebuildConfirmed env p w =
         (None, \<lparr>projectLoading = False, cache = c1,
            trace = trace w @ [SetProjectLoading True, Notice (rebuilding p) (Some 10000),
                               ResetRateLimitNoticeTimer, ClearForProject p,
                               Notice (cacheCleared p) None, GetPlugin ''copilot'',
                               LogError ''Error force rebuilding project context:''
                                 (Error unavailableForRebuild)]
                    @ (if isRateLimitError env (Error unavailableForRebuild) then []
                       else [Notice rebuildFailed None])
                    @ [SetProjectLoading False]\<rparr>)"
  | (RecomputeRejects) c1 plugin pm e c2 where
      "clearForProject env p (cache w) = (None, c1)"
      "getPlugin env ''copilot'' = Some plugin" "projectManager plugin = Some pm"
      "getProjectContext pm (id' p) c1 = (Some e, c2)"
      "forceRebuildTry env p w =
         (Some e, \<lparr>projectLoading = True, cache = c2,
            trace = trace w @ [SetProjectLoading True, Notice (rebuilding p) (Some 10000),
                               ResetRateLimitNoticeTimer, ClearForProject p,
                               Notice (cacheCleared p) None, GetPlugin ''copilot'',
                               GetProjectContext (id' p)]\<rparr>)"
      "forceRebuildConfirmed env p w =
         (None, \<lparr>projectLoading = False, cache = c2,
            trace = trace w @ [SetProjectLoading True, Notice (rebuilding p) (Some 10000),
                               ResetRateLimitNoticeTimer, ClearForProject p,
                               Notice (cacheCleared p) None, GetPlugin ''copilot'',
                               GetProjectContext (id' p),
                               LogError ''Error force rebuilding project context:'' e]
                    @ (if isRateLimitError env e then [] else [Notice rebuildFailed None])
                    @ [SetProjectLoading False]\<rparr>)"
  | (Succeeds) c1 plugin pm c2 where
      "clearForProject env p (cache w) = (None, c1)"
      "getPlugin env ''copilot'' = Some plugin" "projectManager plugin = Some pm"
      "getProjectContext pm (id' p) c1 = (None, c2)"
      "forceRebuildTry env p w =
         (None, \<lparr>projectLoading = True, cache = c2,
            trace = trace w @ [SetProjectLoading True, Notice (rebuilding p) (Some 10000),
                               ResetRateLimitNoticeTimer, ClearForProject p,
                               Notice (cacheCleared p) None, GetPlugin ''copilot'',
                               GetProjectContext (id' p), Notice (rebuilt p) None]\<rparr>)"
      "forceRebuildConfirmed env p w =
         (None, \<lparr>projectLoading = False, cache = c2,
            trace = trace w @ [SetProjectLoading True, Notice (rebuilding p) (Some 10000),
                               ResetRateLimitNoticeTimer, ClearForProject p,
                               Notice (cacheCleared p) None, GetPlugin ''copilot'',
                               GetProjectContext (id' p), Notice (rebuilt p) None,
                               SetProjectLoading False]\<rparr>)"
proof -
  obtain r1 c1 where clr: "clearForProject env p (cache w) = (r1, c1)"
    by (cases "clearForProject env p (cache w)")
  show thesis
  proof (cases r1)
    case (Some e)
    with clr have t: "forceRebuildTry env p w =
         (Some e, \<lparr>projectLoading = True, cache = c1,
            trace = trace w @ [SetProjectLoading True, Notice (rebuilding p) (Some 10000),
                               ResetRateLimitNoticeTimer, ClearForProject p]\<rparr>)"
      by (simp add: forceRebuildTry_def steps)
    show thesis
      using clr Some t rebuild_after_throw [OF t] by (intro ClearRejects) simp_all
  next
    case None
    note ok = clr [unfolded None]
    show thesis
    proof (cases "case getPlugin env ''copilot'' of None \<Rightarrow> True
                  | Some plugin \<Rightarrow> projectManager plugin = None")
      case True
      with ok have t: "forceRebuildTry env p w =
         (Some (Error unavailableForRebuild), \<lparr>projectLoading = True, cache = c1,
            trace = trace w @ [SetProjectLoading True, Notice (rebuilding p) (Some 10000),
                               ResetRateLimitNoticeTimer, ClearForProject p,
                               Notice (cacheCleared p) None, GetPlugin ''copilot'']\<rparr>)"
        by (simp add: forceRebuildTry_def steps split: option.splits)
      show thesis
        using ok True t rebuild_after_throw [OF t] by (intro Unavailable) simp_all
    next
      case False
      then obtain plugin pm where
        pl: "getPlugin env ''copilot'' = Some plugin" and pm: "projectManager plugin = Some pm"
        by (auto split: option.splits)
      obtain r2 c2 where gpc: "getProjectContext pm (id' p) c1 = (r2, c2)"
        by (cases "getProjectContext pm (id' p) c1")
      show thesis
      proof (cases r2)
        case (Some e)
        with ok pl pm gpc have t: "forceRebuildTry env p w =
         (Some e, \<lparr>projectLoading = True, cache = c2,
            trace = trace w @ [SetProjectLoading True, Notice (rebuilding p) (Some 10000),
                               ResetRateLimitNoticeTimer, ClearForProject p,
                               Notice (cacheCleared p) None, GetPlugin ''copilot'',
                               GetProjectContext (id' p)]\<rparr>)"
          by (simp add: forceRebuildTry_def steps)
        show thesis
          using ok pl pm gpc Some t rebuild_after_throw [OF t]
          by (intro RecomputeRejects) simp_all
      next
        case None
        with ok pl pm gpc have t: "forceRebuildTry env p w =
         (None, \<lparr>projectLoading = True, cache = c2,
            trace = trace w @ [SetProjectLoading True, Notice (rebuilding p) (Some 10000),
                               ResetRateLimitNoticeTimer, ClearForProject p,
                               Notice (cacheCleared p) None, GetPlugin ''copilot'',
                               GetProjectContext (id' p), Notice (rebuilt p) None]\<rparr>)"
          by (simp add: forceRebuildTry_def steps)
        show thesis
          using ok pl pm gpc None t rebuild_after_success [OF t]
          by (intro Succeeds) simp_all
      qed
    qed
  qed
qed

subsection \<open>The prompt\<close>

lemma rebuild_prompt:
  assumes "getCurrentProject env = Some p"
  shows "forceRebuildCurrentProjectContext env userConfirms w =
    (if userConfirms
     then forceRebuildConfirmed env p
            (w\<lparr>trace := trace w @ [NewConfirmModal (danger p) ''Force Rebuild Project Context'',
                                    ModalOpen]\<rparr>)
     else (None, w\<lparr>trace := trace w @ [NewConfirmModal (danger p)
                                          ''Force Rebuild Project Context'', ModalOpen]\<rparr>))"
  using assms by (simp add: forceRebuildCurrentProjectContext_def openModal_def steps)

section \<open>Properties\<close>

text \<open>
  C1. Started with the loading flag down, a reload and the confirmed body of a force
  rebuild both end with the flag down, on every path. When a project is selected the
  flag is raised by the first effect of the operation and lowered by the last one, and
  set nowhere in between; a reload with no project selected never sets it.
\<close>

theorem loading_flag_reset:
  assumes "\<not> projectLoading w"
  shows "\<not> projectLoading (snd (reloadCurrentProject env w))
       \<and> filter isSetProjectLoading (effects (reloadCurrentProject env) w) =
           (if getCurrentProject env = None then []
            else [SetProjectLoading True, SetProjectLoading False])
       \<and> (getCurrentProject env \<noteq> None \<longrightarrow>
            hd (effects (reloadCurrentProject env) w) = SetProjectLoading True
          \<and> last (effects (reloadCurrentProject env) w) = SetProjectLoading False)
       \<and> \<not> projectLoading (snd (forceRebuildConfirmed env p w))
       \<and> filter isSetProjectLoading (effects (forceRebuildConfirmed env p) w) =
           [SetProjectLoading True, SetProjectLoading False]
       \<and> hd (effects (forceRebuildConfirmed env p) w) = SetProjectLoading True
       \<and> last (effects (forceRebuildConfirmed env p) w) = SetProjectLoading False"
proof -
  have reload: "\<not> projectLoading (snd (reloadCurrentProject env w))
       \<and> filter isSetProjectLoading (effects (reloadCurrentProject env) w) =
           (if getCurrentProject env = None then []
            else [SetProjectLoading True, SetProjectLoading False])
       \<and> (getCurrentProject env \<noteq> None \<longrightarrow>
            hd (effects (reloadCurrentProject env) w) = SetProjectLoading True
          \<and> last (effects (reloadCurrentProject env) w) = SetProjectLoading False)"
  proof (cases "getCurrentProject env")
    case None
    with assms show ?thesis
      by (simp add: reloadCurrentProject_def effects_def steps)
  next
    case (Some q)
    show ?thesis
      by (cases rule: reload_run [OF Some, of w]) (simp_all add: effects_def Some)
  qed
  have rebuild: "\<not> projectLoading (snd (forceRebuildConfirmed env p w))
       \<and> filter isSetProjectLoading (effects (forceRebuildConfirmed env p) w) =
           [SetProjectLoading True, SetProjectLoading False]
       \<and> hd (effects (forceRebuildConfirmed env p) w) = SetProjectLoading True
       \<and> last (effects (forceRebuildConfirmed env p) w) = SetProjectLoading False"
    by (cases rule: rebuild_run [of env p w]) (simp_all add: effects_def)
  from reload rebuild show ?thesis by simp
qed

theorem loading_flag_reset_witness:
  "\<not> projectLoading idle \<and> getCurrentProject unplugged \<noteq> None
   \<and> \<not> projectLoading (snd (reloadCurrentProject unplugged idle))
   \<and> filter isSetProjectLoading (effects (reloadCurrentProject unplugged) idle) =
       [SetProjectLoading True, SetProjectLoading False]
   \<and> hd (effects (reloadCurrentProject unplugged) idle) = SetProjectLoading True
   \<and> last (effects (reloadCurrentProject unplugged) idle) = SetProjectLoading False
   \<and> \<not> projectLoading (snd (forceRebuildConfirmed unplugged research idle))"
proof -
  have flag: "\<not> projectLoading idle"
    by (simp add: idle_def)
  have sel: "getCurrentProject unplugged \<noteq> None"
    by (simp add: unplugged_def healthy_def)
  from sel flag loading_flag_reset [OF flag, of unplugged research] show ?thesis
    by simp
qed

text \<open>
  C2. With a project selected, the calls a reload makes on the cache and on the project
  manager are, in this order, \<^verbatim>\<open>invalidateMarkdownContext(currentProject, true)\<close> and
  then \<^verbatim>\<open>getProjectContext(currentProject.id)\<close>, and nothing else; those of the
  confirmed body of a force rebuild are \<^verbatim>\<open>clearForProject(currentProject)\<close> and then
  \<^verbatim>\<open>getProjectContext(currentProject.id)\<close>, and nothing else. The cache call is
  always made; the recompute call is made exactly when the cache call has completed
  and the plugin lookup has found a project manager. So the recompute call never comes
  first, a reload never clears and a force rebuild never invalidates.
\<close>

theorem cache_call_before_recompute:
  assumes "getCurrentProject env = Some p"
  shows "filter isCacheCall (effects (reloadCurrentProject env) w) =
           InvalidateMarkdownContext p True
           # (if fst (invalidateMarkdownContext env p True (cache w)) = None
                 \<and> (case getPlugin env ''copilot'' of None \<Rightarrow> False
                     | Some plugin \<Rightarrow> projectManager plugin \<noteq> None)
              then [GetProjectContext (id' p)] else [])
       \<and> filter isCacheCall (effects (forceRebuildConfirmed env p) w) =
           ClearForProject p
           # (if fst (clearForProject env p (cache w)) = None
                 \<and> (case getPlugin env ''copilot'' of None \<Rightarrow> False
                     | Some plugin \<Rightarrow> projectManager plugin \<noteq> None)
              then [GetProjectContext (id' p)] else [])"
proof -
  have reload: "filter isCacheCall (effects (reloadCurrentProject env) w) =
           InvalidateMarkdownContext p True
           # (if fst (invalidateMarkdownContext env p True (cache w)) = None
                 \<and> (case getPlugin env ''copilot'' of None \<Rightarrow> False
                     | Some plugin \<Rightarrow> projectManager plugin \<noteq> None)
              then [GetProjectContext (id' p)] else [])"
    by (cases rule: reload_run [OF assms, of w])
       (simp_all add: effects_def split: option.splits)
  have rebuild: "filter isCacheCall (effects (forceRebuildConfirmed env p) w) =
           ClearForProject p
           # (if fst (clearForProject env p (cache w)) = None
                 \<and> (case getPlugin env ''copilot'' of None \<Rightarrow> False
                     | Some plugin \<Rightarrow> projectManager plugin \<noteq> None)
              then [GetProjectContext (id' p)] else [])"
    by (cases rule: rebuild_run [of env p w])
       (simp_all add: effects_def split: option.splits)
  from reload rebuild show ?thesis by simp
qed

theorem cache_call_before_recompute_witness:
  "getCurrentProject healthy = Some research
   \<and> filter isCacheCall (effects (reloadCurrentProject healthy) idle) =
       [InvalidateMarkdownContext research True, GetProjectContext (id' research)]
   \<and> filter isCacheCall (effects (forceRebuildConfirmed healthy research) idle) =
       [ClearForProject research, GetProjectContext (id' research)]"
proof -
  have sel: "getCurrentProject healthy = Some research"
    by (simp add: healthy_def)
  have completed: "fst (invalidateMarkdownContext healthy research True (cache idle)) = None"
    "fst (clearForProject healthy research (cache idle)) = None"
    by (simp_all add: healthy_def)
  have found: "case getPlugin healthy ''copilot'' of None \<Rightarrow> False
               | Some plugin \<Rightarrow> projectManager plugin \<noteq> None"
    by (simp add: healthy_def)
  from sel completed found cache_call_before_recompute [OF sel, of idle] show ?thesis
    by simp
qed

text \<open>
  C3. When the try block of a reload, or of a confirmed force rebuild, throws an error
  that \<^verbatim>\<open>isRateLimitError\<close> classifies as a rate limit, the generic failure notice is
  not shown and the error is logged once. A reload then shows no notice at all; a
  force rebuild has shown only its informational notices.
\<close>

theorem rate_limit_failure_is_silent:
  assumes "isRateLimitError env e"
  shows "(getCurrentProject env = Some p \<and> fst (reloadTry env p w) = Some e \<longrightarrow>
            count_list (effects (reloadCurrentProject env) w) (Notice reloadFailed None) = 0
          \<and> filter isNotice (effects (reloadCurrentProject env) w) = []
          \<and> count_list (effects (reloadCurrentProject env) w)
               (LogError ''Error reloading project context:'' e) = 1)
       \<and> (fst (forceRebuildTry env p w) = Some e \<longrightarrow>
            count_list (effects (forceRebuildConfirmed env p) w) (Notice rebuildFailed None) = 0
          \<and> (filter isNotice (effects (forceRebuildConfirmed env p) w) =
                [Notice (rebuilding p) (Some 10000)]
            \<or> filter isNotice (effects (forceRebuildConfirmed env p) w) =
                [Notice (rebuilding p) (Some 10000), Notice (cacheCleared p) None])
          \<and> count_list (effects (forceRebuildConfirmed env p) w)
               (LogError ''Error force rebuilding project context:'' e) = 1)"
proof -
  have reload: "count_list (effects (reloadCurrentProject env) w) (Notice reloadFailed None) = 0
          \<and> filter isNotice (effects (reloadCurrentProject env) w) = []
          \<and> count_list (effects (reloadCurrentProject env) w)
               (LogError ''Error reloading project context:'' e) = 1"
    if sel: "getCurrentProject env = Some p" and thrown: "fst (reloadTry env p w) = Some e"
    using thrown assms
    by (cases rule: reload_run [OF sel, of w]) (simp_all add: effects_def)
  have rebuild: "count_list (effects (forceRebuildConfirmed env p) w) (Notice rebuildFailed None) = 0
          \<and> (filter isNotice (effects (forceRebuildConfirmed env p) w) =
                [Notice (rebuilding p) (Some 10000)]
            \<or> filter isNotice (effects (forceRebuildConfirmed env p) w) =
                [Notice (rebuilding p) (Some 10000), Notice (cacheCleared p) None])
          \<and> count_list (effects (forceRebuildConfirmed env p) w)
               (LogError ''Error force rebuilding project context:'' e) = 1"
    if thrown: "fst (forceRebuildTry env p w) = Some e"
    using thrown assms
    by (cases rule: rebuild_run [of env p w]) (simp_all add: effects_def cleared_not_failed)
  from reload rebuild show ?thesis by blast
qed

theorem rate_limit_failure_is_silent_witness:
  "isRateLimitError (rejecting (Thrown 429)) (Thrown 429)
   \<and> getCurrentProject (rejecting (Thrown 429)) = Some research
   \<and> fst (reloadTry (rejecting (Thrown 429)) research idle) = Some (Thrown 429)
   \<and> fst (forceRebuildTry (rejecting (Thrown 429)) research idle) = Some (Thrown 429)
   \<and> count_list (effects (reloadCurrentProject (rejecting (Thrown 429))) idle)
        (Notice reloadFailed None) = 0
   \<and> count_list (effects (reloadCurrentProject (rejecting (Thrown 429))) idle)
        (LogError ''Error reloading project context:'' (Thrown 429)) = 1
   \<and> count_list (effects (forceRebuildConfirmed (rejecting (Thrown 429)) research) idle)
        (Notice rebuildFailed None) = 0
   \<and> count_list (effects (forceRebuildConfirmed (rejecting (Thrown 429)) research) idle)
        (LogError ''Error force rebuilding project context:'' (Thrown 429)) = 1"
proof -
  have limited: "isRateLimitError (rejecting (Thrown 429)) (Thrown 429)"
    by (simp add: rejecting_def healthy_def)
  have sel: "getCurrentProject (rejecting (Thrown 429)) = Some research"
    by (simp add: rejecting_def healthy_def)
  have reload: "fst (reloadTry (rejecting (Thrown 429)) research idle) = Some (Thrown 429)"
    by (simp add: reloadTry_def steps rejecting_def healthy_def)
  have rebuild: "fst (forceRebuildTry (rejecting (Thrown 429)) research idle) = Some (Thrown 429)"
    by (simp add: forceRebuildTry_def steps rejecting_def healthy_def)
  from limited sel reload rebuild
    rate_limit_failure_is_silent [OF limited, of research idle]
  show ?thesis by blast
qed

text \<open>
  C4. When the try block of a reload, or of a confirmed force rebuild, throws an error,
  the error is logged once and the generic failure notice is shown exactly once if
  \<^verbatim>\<open>isRateLimitError\<close> does not classify the error as a rate limit, and not at all if
  it does: the generic notice never accompanies an error left to the rate-limit notice.
\<close>

theorem one_generic_failure_notice:
  "(getCurrentProject env = Some p \<and> fst (reloadTry env p w) = Some e \<longrightarrow>
      count_list (effects (reloadCurrentProject env) w) (Notice reloadFailed None) =
        (if isRateLimitError env e then 0 else 1)
    \<and> count_list (effects (reloadCurrentProject env) w)
         (LogError ''Error reloading project context:'' e) = 1)
   \<and> (fst (forceRebuildTry env p w) = Some e \<longrightarrow>
      count_list (effects (forceRebuildConfirmed env p) w) (Notice rebuildFailed None) =
        (if isRateLimitError env e then 0 else 1)
    \<and> count_list (effects (forceRebuildConfirmed env p) w)
         (LogError ''Error force rebuilding project context:'' e) = 1)"
proof -
  have reload: "count_list (effects (reloadCurrentProject env) w) (Notice reloadFailed None) =
        (if isRateLimitError env e then 0 else 1)
    \<and> count_list (effects (reloadCurrentProject env) w)
         (LogError ''Error reloading project context:'' e) = 1"
    if sel: "getCurrentProject env = Some p" and thrown: "fst (reloadTry env p w) = Some e"
    using thrown
    by (cases rule: reload_run [OF sel, of w]) (simp_all add: effects_def)
  have rebuild: "count_list (effects (forceRebuildConfirmed env p) w) (Notice rebuildFailed None) =
        (if isRateLimitError env e then 0 else 1)
    \<and> count_list (effects (forceRebuildConfirmed env p) w)
         (LogError ''Error force rebuilding project context:'' e) = 1"
    if thrown: "fst (forceRebuildTry env p w) = Some e"
    using thrown
    by (cases rule: rebuild_run [of env p w]) (simp_all add: effects_def cleared_not_failed)
  from reload rebuild show ?thesis by blast
qed

theorem one_generic_failure_notice_witness:
  "getCurrentProject (rejecting (Error ''offline'')) = Some research
   \<and> fst (reloadTry (rejecting (Error ''offline'')) research idle) = Some (Error ''offline'')
   \<and> fst (forceRebuildTry (rejecting (Error ''offline'')) research idle)
       = Some (Error ''offline'')
   \<and> \<not> isRateLimitError (rejecting (Error ''offline'')) (Error ''offline'')
   \<and> count_list (effects (reloadCurrentProject (rejecting (Error ''offline''))) idle)
        (Notice reloadFailed None) = 1
   \<and> count_list (effects (reloadCurrentProject (rejecting (Error ''offline''))) idle)
        (LogError ''Error reloading project context:'' (Error ''offline'')) = 1
   \<and> count_list (effects (forceRebuildConfirmed (rejecting (Error ''offline'')) research) idle)
        (Notice rebuildFailed None) = 1
   \<and> count_list (effects (forceRebuildConfirmed (rejecting (Error ''offline'')) research) idle)
        (LogError ''Error force rebuilding project context:'' (Error ''offline'')) = 1"
proof -
  have other: "\<not> isRateLimitError (rejecting (Error ''offline'')) (Error ''offline'')"
    by (simp add: rejecting_def healthy_def)
  have sel: "getCurrentProject (rejecting (Error ''offline'')) = Some research"
    by (simp add: rejecting_def healthy_def)
  have reload: "fst (reloadTry (rejecting (Error ''offline'')) research idle)
                  = Some (Error ''offline'')"
    by (simp add: reloadTry_def steps rejecting_def healthy_def)
  have rebuild: "fst (forceRebuildTry (rejecting (Error ''offline'')) research idle)
                  = Some (Error ''offline'')"
    by (simp add: forceRebuildTry_def steps rejecting_def healthy_def)
  from other sel reload rebuild
    one_generic_failure_notice [of "rejecting (Error ''offline'')" research idle
      "Error ''offline''"]
  show ?thesis by simp
qed

text \<open>
  C5. A force rebuild the user does not confirm leaves the cache and the loading flag
  as they were and performs none of the steps of the rebuild (setting the flag,
  resetting the rate-limit notice timer, clearing the cache, recomputing). Whatever the
  user answers, none of these steps comes before the modal is opened; and when a
  project is selected and the user confirms, what follows the opening of the modal is
  exactly the run of the callback.
\<close>

theorem rebuild_waits_for_confirmation:
  "cache (snd (forceRebuildCurrentProjectContext env False w)) = cache w
   \<and> projectLoading (snd (forceRebuildCurrentProjectContext env False w)) = projectLoading w
   \<and> filter isRebuildStep (effects (forceRebuildCurrentProjectContext env False) w) = []
   \<and> filter isRebuildStep
        (takeWhile (\<lambda>ev. ev \<noteq> ModalOpen)
           (effects (forceRebuildCurrentProjectContext env userConfirms) w)) = []
   \<and> (getCurrentProject env = Some p \<longrightarrow>
        effects (forceRebuildCurrentProjectContext env True) w =
          NewConfirmModal (danger p) ''Force Rebuild Project Context'' # ModalOpen
          # effects (forceRebuildConfirmed env p)
              (w\<lparr>trace := trace w @ [NewConfirmModal (danger p)
                                        ''Force Rebuild Project Context'', ModalOpen]\<rparr>))"
proof -
  let ?opened = "\<lambda>q. w\<lparr>trace := trace w @ [NewConfirmModal (danger q)
                                            ''Force Rebuild Project Context'', ModalOpen]\<rparr>"
  have declined: "cache (snd (forceRebuildCurrentProjectContext env False w)) = cache w
     \<and> projectLoading (snd (forceRebuildCurrentProjectContext env False w)) = projectLoading w
     \<and> filter isRebuildStep (effects (forceRebuildCurrentProjectContext env False) w) = []"
  proof (cases "getCurrentProject env")
    case None
    then show ?thesis
      by (simp add: forceRebuildCurrentProjectContext_def effects_def steps)
  next
    case (Some q)
    show ?thesis
      by (simp add: rebuild_prompt [OF Some] effects_def)
  qed
  have before: "filter isRebuildStep
        (takeWhile (\<lambda>ev. ev \<noteq> ModalOpen)
           (effects (forceRebuildCurrentProjectContext env userConfirms) w)) = []"
  proof (cases "getCurrentProject env")
    case None
    then show ?thesis
      by (simp add: forceRebuildCurrentProjectContext_def effects_def steps)
  next
    case (Some q)
    show ?thesis
    proof (cases userConfirms)
      case False
      then show ?thesis
        by (simp add: rebuild_prompt [OF Some] effects_def)
    next
      case True
      then show ?thesis
        by (cases rule: rebuild_run [of env q "?opened q"])
           (simp_all add: rebuild_prompt [OF Some] effects_def)
    qed
  qed
  have after: "effects (forceRebuildCurrentProjectContext env True) w =
          NewConfirmModal (danger p) ''Force Rebuild Project Context'' # ModalOpen
          # effects (forceRebuildConfirmed env p) (?opened p)"
    if sel: "getCurrentProject env = Some p"
    by (cases rule: rebuild_run [of env p "?opened p"])
       (simp_all add: rebuild_prompt [OF sel] effects_def)
  from declined before after show ?thesis by blast
qed

theorem rebuild_waits_for_confirmation_witness:
  "getCurrentProject healthy = Some research
   \<and> cache (snd (forceRebuildCurrentProjectContext healthy False idle)) = cache idle
   \<and> filter isRebuildStep (effects (forceRebuildCurrentProjectContext healthy False) idle) = []
   \<and> effects (forceRebuildCurrentProjectContext healthy True) idle =
        NewConfirmModal (danger research) ''Force Rebuild Project Context'' # ModalOpen
        # effects (forceRebuildConfirmed healthy research)
            (idle\<lparr>trace := trace idle @ [NewConfirmModal (danger research)
                                           ''Force Rebuild Project Context'', ModalOpen]\<rparr>)"
proof -
  have sel: "getCurrentProject healthy = Some research"
    by (simp add: healthy_def)
  from sel rebuild_waits_for_confirmation [of healthy idle False research]
  show ?thesis by blast
qed

text \<open>
  C6. With no project selected, a reload returns normally after a single notice,
  "No project is currently selected to reload.": it calls neither the cache nor the
  project manager and does not touch the loading flag.
\<close>

theorem reload_without_project:
  assumes "getCurrentProject env = None"
  shows "reloadCurrentProject env w =
           (None, w\<lparr>trace := trace w
                      @ [Notice ''No project is currently selected to reload.'' None]\<rparr>)
       \<and> effects (reloadCurrentProject env) w =
           [Notice ''No project is currently selected to reload.'' None]"
  using assms by (simp add: reloadCurrentProject_def effects_def steps)

theorem reload_without_project_witness:
  "getCurrentProject unselected = None
   \<and> reloadCurrentProject unselected idle =
       (None, idle\<lparr>trace := trace idle
                     @ [Notice ''No project is currently selected to reload.'' None]\<rparr>)
   \<and> effects (reloadCurrentProject unselected) idle =
       [Notice ''No project is currently selected to reload.'' None]"
proof -
  have none: "getCurrentProject unselected = None"
    by (simp add: unselected_def healthy_def)
  from none reload_without_project [OF none, of idle] show ?thesis
    by blast
qed

text \<open>
  C7. With no project selected, a force rebuild returns normally after a single notice,
  "No project is currently selected to rebuild.", whatever the user would answer: no
  modal is constructed and none is opened.
\<close>

theorem rebuild_without_project:
  assumes "getCurrentProject env = None"
  shows "forceRebuildCurrentProjectContext env userConfirms w =
           (None, w\<lparr>trace := trace w
                      @ [Notice ''No project is currently selected to rebuild.'' None]\<rparr>)
       \<and> effects (forceRebuildCurrentProjectContext env userConfirms) w =
           [Notice ''No project is currently selected to rebuild.'' None]"
  using assms by (simp add: forceRebuildCurrentProjectContext_def effects_def steps)

theorem rebuild_without_project_witness:
  "getCurrentProject unselected = None
   \<and> forceRebuildCurrentProjectContext unselected True idle =
       (None, idle\<lparr>trace := trace idle
                     @ [Notice ''No project is currently selected to rebuild.'' None]\<rparr>)
   \<and> effects (forceRebuildCurrentProjectContext unselected True) idle =
       [Notice ''No project is currently selected to rebuild.'' None]"
proof -
  have none: "getCurrentProject unselected = None"
    by (simp add: unselected_def healthy_def)
  from none rebuild_without_project [OF none, of True idle] show ?thesis
    by blast
qed




text \<open>
  C9. A failed run is not undone. When the cache call of a reload
  (\<^verbatim>\<open>invalidateMarkdownContext\<close>) or of a confirmed force rebuild
  (\<^verbatim>\<open>clearForProject\<close>) has completed and the try block then throws, the error is
  logged and the operation ends with the cache as the try block left it; when the
  throw is the missing plugin or project manager, that is the cache as the cache call
  left it. No call on the cache follows the failure.
\<close>

theorem failed_run_keeps_cache_mutation:
  "(getCurrentProject env = Some p
    \<and> invalidateMarkdownContext env p True (cache w) = (None, c1)
    \<and> fst (reloadTry env p w) = Some e \<longrightarrow>
      cache (snd (reloadCurrentProject env w)) = cache (snd (reloadTry env p w))
    \<and> count_list (effects (reloadCurrentProject env) w)
         (LogError ''Error reloading project context:'' e) = 1
    \<and> filter isCacheCall (dropWhile (\<lambda>ev. \<not> isLogError ev)
         (effects (reloadCurrentProject env) w)) = []
    \<and> ((case getPlugin env ''copilot'' of None \<Rightarrow> True
         | Some plugin \<Rightarrow> projectManager plugin = None) \<longrightarrow>
          cache (snd (reloadCurrentProject env w)) = c1))
   \<and> (clearForProject env p (cache w) = (None, c1')
    \<and> fst (forceRebuildTry env p w) = Some e' \<longrightarrow>
      cache (snd (forceRebuildConfirmed env p w)) = cache (snd (forceRebuildTry env p w))
    \<and> count_list (effects (forceRebuildConfirmed env p) w)
         (LogError ''Error force rebuilding project context:'' e') = 1
    \<and> filter isCacheCall (dropWhile (\<lambda>ev. \<not> isLogError ev)
         (effects (forceRebuildConfirmed env p) w)) = []
    \<and> ((case getPlugin env ''copilot'' of None \<Rightarrow> True
         | Some plugin \<Rightarrow> projectManager plugin = None) \<longrightarrow>
          cache (snd (forceRebuildConfirmed env p w)) = c1'))"
proof -
  have reload: "cache (snd (reloadCurrentProject env w)) = cache (snd (reloadTry env p w))
    \<and> count_list (effects (reloadCurrentProject env) w)
         (LogError ''Error reloading project context:'' e) = 1
    \<and> filter isCacheCall (dropWhile (\<lambda>ev. \<not> isLogError ev)
         (effects (reloadCurrentProject env) w)) = []
    \<and> ((case getPlugin env ''copilot'' of None \<Rightarrow> True
         | Some plugin \<Rightarrow> projectManager plugin = None) \<longrightarrow>
          cache (snd (reloadCurrentProject env w)) = c1)"
    if sel: "getCurrentProject env = Some p"
      and ok: "invalidateMarkdownContext env p True (cache w) = (None, c1)"
      and thrown: "fst (reloadTry env p w) = Some e"
    using ok thrown
    by (cases rule: reload_run [OF sel, of w]) (simp_all add: effects_def)
  have rebuild: "cache (snd (forceRebuildConfirmed env p w))
        = cache (snd (forceRebuildTry env p w))
    \<and> count_list (effects (forceRebuildConfirmed env p) w)
         (LogError ''Error force rebuilding project context:'' e') = 1
    \<and> filter isCacheCall (dropWhile (\<lambda>ev. \<not> isLogError ev)
         (effects (forceRebuildConfirmed env p) w)) = []
    \<and> ((case getPlugin env ''copilot'' of None \<Rightarrow> True
         | Some plugin \<Rightarrow> projectManager plugin = None) \<longrightarrow>
          cache (snd (forceRebuildConfirmed env p w)) = c1')"
    if ok: "clearForProject env p (cache w) = (None, c1')"
      and thrown: "fst (forceRebuildTry env p w) = Some e'"
    using ok thrown
    by (cases rule: rebuild_run [of env p w]) (simp_all add: effects_def)
  from reload rebuild show ?thesis by blast
qed

theorem failed_run_keeps_cache_mutation_witness:
  "getCurrentProject unplugged = Some research
   \<and> invalidateMarkdownContext unplugged research True (cache idle) = (None, [''pdf''])
   \<and> fst (reloadTry unplugged research idle) = Some (Error unavailable)
   \<and> clearForProject unplugged research (cache idle) = (None, [])
   \<and> fst (forceRebuildTry unplugged research idle) = Some (Error unavailableForRebuild)
   \<and> (case getPlugin unplugged ''copilot'' of None \<Rightarrow> True
       | Some plugin \<Rightarrow> projectManager plugin = None)
   \<and> cache idle = [''markdown'', ''web'', ''pdf'']
   \<and> cache (snd (reloadCurrentProject unplugged idle)) = [''pdf'']
   \<and> cache (snd (forceRebuildConfirmed unplugged research idle)) = []"
proof -
  have sel: "getCurrentProject unplugged = Some research"
    by (simp add: unplugged_def healthy_def)
  have gone: "case getPlugin unplugged ''copilot'' of None \<Rightarrow> True
              | Some plugin \<Rightarrow> projectManager plugin = None"
    by (simp add: unplugged_def healthy_def)
  have before: "cache idle = [''markdown'', ''web'', ''pdf'']"
    by (simp add: idle_def)
  have ok: "invalidateMarkdownContext unplugged research True (cache idle) = (None, [''pdf''])"
    "clearForProject unplugged research (cache idle) = (None, [])"
    by (simp_all add: unplugged_def healthy_def)
  have thrown: "fst (reloadTry unplugged research idle) = Some (Error unavailable)"
    "fst (forceRebuildTry unplugged research idle) = Some (Error unavailableForRebuild)"
    by (simp_all add: reloadTry_def forceRebuildTry_def steps unplugged_def healthy_def)
  from sel gone before ok thrown
    failed_run_keeps_cache_mutation [of unplugged research idle "[''pdf'']"
      "Error unavailable" "[]" "Error unavailableForRebuild"]
  show ?thesis by blast
qed

text \<open>
  C10. When \<^verbatim>\<open>clearForProject\<close> has completed and the try block of a confirmed force
  rebuild then throws, the notices shown before the error is logged are the
  ten-second "Force rebuilding context ..." notice and the "Cache ... has been
  cleared." notice, in this order; the notices of the whole run are these two,
  followed by the generic failure notice unless \<^verbatim>\<open>isRateLimitError\<close> takes the error
  for a rate limit.
\<close>

theorem failed_rebuild_notices:
  assumes "clearForProject env p (cache w) = (None, c1)"
    and "fst (forceRebuildTry env p w) = Some e"
  shows "filter isNotice (takeWhile (\<lambda>ev. \<not> isLogError ev)
           (effects (forceRebuildConfirmed env p) w)) =
           [Notice (rebuilding p) (Some 10000), Notice (cacheCleared p) None]
       \<and> filter isNotice (effects (forceRebuildConfirmed env p) w) =
           [Notice (rebuilding p) (Some 10000), Notice (cacheCleared p) None]
           @ (if isRateLimitError env e then [] else [Notice rebuildFailed None])"
  using assms by (cases rule: rebuild_run [of env p w]) (simp_all add: effects_def)

theorem failed_rebuild_notices_witness:
  "clearForProject (rejecting (Error ''offline'')) research (cache idle) = (None, [])
   \<and> fst (forceRebuildTry (rejecting (Error ''offline'')) research idle)
       = Some (Error ''offline'')
   \<and> filter isNotice (effects (forceRebuildConfirmed (rejecting (Error ''offline'')) research) idle)
       = [Notice (rebuilding research) (Some 10000), Notice (cacheCleared research) None,
          Notice rebuildFailed None]"
proof -
  have ok: "clearForProject (rejecting (Error ''offline'')) research (cache idle) = (None, [])"
    by (simp add: rejecting_def healthy_def)
  have thrown: "fst (forceRebuildTry (rejecting (Error ''offline'')) research idle)
                  = Some (Error ''offline'')"
    by (simp add: forceRebuildTry_def steps rejecting_def healthy_def)
  have other: "\<not> isRateLimitError (rejecting (Error ''offline'')) (Error ''offline'')"
    by (simp add: rejecting_def healthy_def)
  from ok thrown other failed_rebuild_notices [OF ok thrown] show ?thesis
    by simp
qed

end
